theory Spec2Isabelle
  imports Complex_Main "HOL-Library.Multiset"
begin

section \<open>JavaScript values, failures and observable effects\<close>

text \<open>
  The dashboard is browser code: values are dynamically typed at run time, a property read
  on \<open>undefined\<close> or \<open>null\<close> throws a \<open>TypeError\<close>, and a property that an object does not
  have reads as \<open>undefined\<close>. Risk scores arrive as JSON numbers, which are finite, so they
  are modelled as reals and compared exactly. A string is the list of its characters. The
  library method \<open>String.prototype.toLowerCase\<close>, which lower-cases every cased letter of
  Unicode, is not defined here: the functions that call it take it as their first
  argument, and what is proved of them holds for every such function.
\<close>

datatype js_error = TypeError | NetworkError | HttpError nat | SyntaxError

record UserRiskData =
  user_id :: string
  name :: string
  email :: string
  current_score :: real
  risk_level :: string
  last_updated :: string

text \<open>
  Modelled from the spec: the type \<open>ActivityLog\<close> is used by \<open>UserDetail.tsx\<close> and declared
  nowhere in the sources; its fields are those of the spec's ActivityEvent.
\<close>

record ActivityLog =
  activity_id :: nat
  activity_user_id :: nat
  action :: string
  resource :: "string option"
  location :: "string option"
  success :: bool
  risk_score :: real
  timestamp :: string

record DashboardStats =
  total_users :: real
  high_risk_users :: real
  recent_alerts :: real
  average_risk_score :: real

record RiskTrend =
  date :: string
  average_score :: real

text \<open>
  Run-time values held in component state or returned by a request. \<open>Json s\<close> is any other
  JSON document, kept as its text, that has no member called \<open>data\<close>; \<open>AxiosResponse d\<close>
  is the response object of the HTTP library, whose \<open>data\<close> member is \<open>d\<close>.
\<close>

datatype jsval =
    Undefined
  | Null
  | UserObject UserRiskData
  | UserArray "UserRiskData list"
  | ActivityArray "ActivityLog list"
  | StatsObject DashboardStats
  | TrendArray "RiskTrend list"
  | Json string
  | AxiosResponse jsval

text \<open>The expression \<open>v.data\<close>.\<close>

fun prop_data :: "jsval \<Rightarrow> js_error + jsval" where
  "prop_data (AxiosResponse d) = Inr d"
| "prop_data Undefined = Inl TypeError"
| "prop_data Null = Inl TypeError"
| "prop_data v = Inr Undefined"

definition and_then :: "'e + 'a \<Rightarrow> ('a \<Rightarrow> 'e + 'b) \<Rightarrow> 'e + 'b" where
  "and_then r k = (case r of Inl e \<Rightarrow> Inl e | Inr v \<Rightarrow> k v)"

datatype toast = ToastError string | ToastSuccess string

text \<open>
  What every page component shares: the loading flag, and two logs of what the user and
  the developer can observe, the messages passed to \<open>console.error\<close> and the toasts shown.
\<close>

record page =
  isLoading :: bool
  console :: "string list"
  toasts :: "toast list"

section \<open>The API client (services/api.ts)\<close>

datatype http_verb = GET | PUT

record http_request =
  verb :: http_verb
  url :: string
  payload :: "real option"

text \<open>
  The HTTP instance: a request is rejected (transport failure or a status outside 2xx)
  or fulfilled with a response object.
\<close>

type_synonym backend = "http_request \<Rightarrow> js_error + jsval"

definition getUserRiskScores :: "backend \<Rightarrow> js_error + jsval" where
  "getUserRiskScores axiosInstance =
     and_then (axiosInstance \<lparr>verb = GET, url = ''/users/risk-scores'', payload = None\<rparr>)
       (\<lambda>response. prop_data response)"

definition getUserById :: "backend \<Rightarrow> string \<Rightarrow> js_error + jsval" where
  "getUserById axiosInstance userId =
     and_then (axiosInstance \<lparr>verb = GET, url = ''/users/'' @ userId, payload = None\<rparr>)
       (\<lambda>response. prop_data response)"

definition updateRiskScore :: "backend \<Rightarrow> string \<Rightarrow> real \<Rightarrow> js_error + jsval" where
  "updateRiskScore axiosInstance userId newScore =
     and_then (axiosInstance
         \<lparr>verb = PUT, url = ''/users/'' @ userId @ ''/update-score'', payload = Some newScore\<rparr>)
       (\<lambda>response. prop_data response)"

text \<open>The members of the exported object \<open>riskAPI\<close>, in the order of the object literal.\<close>

definition riskAPI :: "string list" where
  "riskAPI = [''getUserRiskScores'', ''getUserById'', ''updateRiskScore'']"

text \<open>
  A call \<open>riskAPI.m(...)\<close>: when the object has no member \<open>m\<close> the callee is \<open>undefined\<close> and
  the call throws a \<open>TypeError\<close>; otherwise it gives what the body of \<open>m\<close> gives.
\<close>

definition riskAPI_call :: "string \<Rightarrow> js_error + jsval \<Rightarrow> js_error + jsval" where
  "riskAPI_call m body = (if List.member riskAPI m then body else Inl TypeError)"

section \<open>The Users page (pages/Users.tsx)\<close>

record users_page = page +
  users :: jsval
  filteredUsers :: "UserRiskData list"
  searchTerm :: string
  selectedFilter :: string

definition Users_init :: users_page where
  "Users_init = \<lparr>isLoading = True, console = [], toasts = [],
     users = UserArray [], filteredUsers = [], searchTerm = [], selectedFilter = ''all''\<rparr>"

definition fetchUsers :: "backend \<Rightarrow> users_page \<Rightarrow> users_page" where
  "fetchUsers axiosInstance st =
     (case and_then (riskAPI_call ''getUserRiskScores'' (getUserRiskScores axiosInstance))
             (\<lambda>response. prop_data response) of
        Inr d \<Rightarrow> st\<lparr>isLoading := False, users := d\<rparr>
      | Inl error \<Rightarrow> st\<lparr>isLoading := False,
                         console := console st @ [''Failed to fetch users:'']\<rparr>)"

text \<open>\<open>s.includes(t)\<close>: \<open>t\<close> occurs in \<open>s\<close> as a contiguous substring.\<close>

fun includes_str :: "string \<Rightarrow> string \<Rightarrow> bool" where
  "includes_str [] t = (t = [])"
| "includes_str (c # s) t = (take (length t) (c # s) = t \<or> includes_str s t)"

text \<open>
  The test of the first filter of \<open>filterUsers\<close>; \<open>toLowerCase\<close> is the library method and
  \<open>term\<close> the search term as typed, which is not trimmed.
\<close>

definition matchesSearch :: "(string \<Rightarrow> string) \<Rightarrow> string \<Rightarrow> UserRiskData \<Rightarrow> bool" where
  "matchesSearch toLowerCase term user =
     (includes_str (toLowerCase (name user)) (toLowerCase term) \<or>
      includes_str (toLowerCase (email user)) (toLowerCase term))"

text \<open>
  \<open>filterUsers\<close> reads \<open>users.filter\<close>, which throws unless \<open>users\<close> holds an array. The sort
  is the stable sort of the engine with the comparator \<open>b.current_score - a.current_score\<close>,
  that is, descending by score.
\<close>

definition filterUsers :: "(string \<Rightarrow> string) \<Rightarrow> users_page \<Rightarrow> js_error + users_page" where
  "filterUsers toLowerCase st =
     (case users st of
        UserArray us \<Rightarrow>
          (let filtered = filter (matchesSearch toLowerCase (searchTerm st)) us;
               filtered = (if selectedFilter st \<noteq> ''all''
                           then filter (\<lambda>user. toLowerCase (risk_level user) = selectedFilter st)
                                  filtered
                           else filtered);
               filtered = sort_key (\<lambda>user. - current_score user) filtered
           in Inr (st\<lparr>filteredUsers := filtered\<rparr>))
      | _ \<Rightarrow> Inl TypeError)"

text \<open>
  What the component returns: the spinner while loading, else the header
  \<open>{filteredUsers.length} of {users.length} users\<close> and one table row per filtered user.
  Reading \<open>users.length\<close> and \<open>users.filter\<close> throws unless \<open>users\<close> holds an array.
\<close>

datatype users_view = Spinner | UsersTable nat nat "UserRiskData list"

definition render_Users :: "users_page \<Rightarrow> js_error + users_view" where
  "render_Users st =
     (if isLoading st then Inr Spinner
      else case users st of
             UserArray us \<Rightarrow>
               Inr (UsersTable (length (filteredUsers st)) (length us) (filteredUsers st))
           | _ \<Rightarrow> Inl TypeError)"

text \<open>
  Mounting the page. The first render shows the spinner and both effects run: the fetch
  starts and \<open>filterUsers\<close> computes the filtered list of the initial state. When the fetch
  settles, its state updates are applied and the component renders; then the effect on
  \<open>[searchTerm, selectedFilter, users]\<close> runs and the component renders again. (When
  \<open>users\<close> did not change the effect is skipped; running it gives the same state.) An
  exception thrown by a render or an effect is not caught by the page.
\<close>

definition Users_mount :: "(string \<Rightarrow> string) \<Rightarrow> backend \<Rightarrow> js_error + users_view" where
  "Users_mount toLowerCase axiosInstance =
     and_then (filterUsers toLowerCase Users_init) (\<lambda>st1.
       let st2 = fetchUsers axiosInstance st1
       in and_then (render_Users st2) (\<lambda>view.
            and_then (filterUsers toLowerCase st2) render_Users))"

definition getRiskScoreColor_Users :: "real \<Rightarrow> string" where
  "getRiskScoreColor_Users score =
     (if score \<ge> 40 then ''text-red-600 dark:text-red-400''
      else if score \<ge> 30 then ''text-orange-600 dark:text-orange-400''
      else if score \<ge> 20 then ''text-yellow-600 dark:text-yellow-400''
      else ''text-green-600 dark:text-green-400'')"

text \<open>The colour of the score bar in a table row, written inline in the row.\<close>

definition scoreBarColor_Users :: "real \<Rightarrow> string" where
  "scoreBarColor_Users score =
     (if score \<ge> 40 then ''bg-red-500''
      else if score \<ge> 30 then ''bg-orange-500''
      else if score \<ge> 20 then ''bg-yellow-500''
      else ''bg-green-500'')"

section \<open>The Dashboard page\<close>

record dashboard_page = page +
  stats :: jsval
  trends :: jsval

definition Dashboard_init :: dashboard_page where
  "Dashboard_init = \<lparr>isLoading = True, console = [], toasts = [],
     stats = StatsObject \<lparr>total_users = 0, high_risk_users = 0, recent_alerts = 0,
                           average_risk_score = 0\<rparr>,
     trends = TrendArray []\<rparr>"


section \<open>The UserDetail page (pages/UserDetail.tsx)\<close>

record userdetail_page = page +
  activities :: jsval
  user :: jsval

definition UserDetail_init :: userdetail_page where
  "UserDetail_init = \<lparr>isLoading = True, console = [], toasts = [],
     activities = ActivityArray [], user = Null\<rparr>"



definition getRiskScoreColor_UserDetail :: "real \<Rightarrow> string" where
  "getRiskScoreColor_UserDetail score =
     (if score \<ge> 40 then ''text-red-600 dark:text-red-400 bg-red-50 dark:bg-red-900/20''
      else if score \<ge> 30
        then ''text-orange-600 dark:text-orange-400 bg-orange-50 dark:bg-orange-900/20''
      else if score \<ge> 20
        then ''text-yellow-600 dark:text-yellow-400 bg-yellow-50 dark:bg-yellow-900/20''
      else ''text-green-600 dark:text-green-400 bg-green-50 dark:bg-green-900/20'')"

text \<open>
  The value of a JavaScript division: dividing by zero does not throw, it gives \<open>NaN\<close> or
  an infinity.
\<close>

datatype js_number = Finite real | NaN | PosInfinity | NegInfinity

definition js_divide :: "real \<Rightarrow> real \<Rightarrow> js_number" where
  "js_divide a b =
     (if b \<noteq> 0 then Finite (a / b)
      else if a = 0 then NaN
      else if a > 0 then PosInfinity
      else NegInfinity)"

text \<open>
  The text of the card "Avg Risk Score": a string literal, or the library method
  \<open>toFixed\<close> applied to a number with a number of digits, which is kept symbolic.
\<close>

datatype card_text = Literal string | ToFixed js_number nat

definition avgRiskScoreCard :: "ActivityLog list \<Rightarrow> card_text" where
  "avgRiskScoreCard acts =
     (if length acts > 0
      then ToFixed
             (js_divide (foldl (\<lambda>sum a. sum + risk_score a) 0 acts) (real (length acts))) 1
      else Literal ''0.0'')"

section \<open>The Recommendations page\<close>

text \<open>
  The page uses the browser's \<open>fetch\<close>: the request is rejected on a transport failure and
  fulfilled otherwise, also for a status outside 2xx, where \<open>ok\<close> is false. Reading the
  body with \<open>json()\<close> is rejected when the body is not JSON.
\<close>

record fetch_response =
  ok :: bool
  json :: "js_error + jsval"

record recommendations_page = page +
  data :: jsval
  isRefreshing :: bool


definition fetchRecommendations ::
    "js_error + fetch_response \<Rightarrow> recommendations_page \<Rightarrow> recommendations_page" where
  "fetchRecommendations fetched st =
     (let (st1, thrown) =
        (case fetched of
           Inl error \<Rightarrow> (st, True)
         | Inr response \<Rightarrow>
             if ok response
             then (case json response of
                     Inl error \<Rightarrow> (st, True)
                   | Inr recommendationsData \<Rightarrow> (st\<lparr>data := recommendationsData\<rparr>, False))
             else (st, False));
          st2 = (if thrown
                 then st1\<lparr>console := console st1 @ [''Failed to fetch recommendations:''],
                          toasts := toasts st1 @ [ToastError ''Failed to load recommendations'']\<rparr>
                 else st1)
      in st2\<lparr>isLoading := False, isRefreshing := False\<rparr>)"

definition handleRefresh ::
    "js_error + fetch_response \<Rightarrow> recommendations_page \<Rightarrow> recommendations_page" where
  "handleRefresh fetched st =
     (let st1 = fetchRecommendations fetched (st\<lparr>isRefreshing := True\<rparr>)
      in st1\<lparr>toasts := toasts st1 @ [ToastSuccess ''Recommendations updated'']\<rparr>)"

section \<open>The Risk Simulator (components/RiskSimulator.tsx)\<close>

datatype field_value = Num real | Str string | Bool bool

text \<open>
  The draft request is a JavaScript object: a finite map from field names to values. The
  object spread \<open>{...prev, ...d}\<close> is the map \<open>prev\<close> overridden by \<open>d\<close>.
\<close>

record simulator = page +
  result :: jsval
  formData :: "string \<Rightarrow> field_value option"

definition Simulator_init :: simulator where
  "Simulator_init = \<lparr>isLoading = False, console = [], toasts = [], result = Null,
     formData = map_of
       [(''user_id'', Num 1),
        (''action'', Str ''login''),
        (''resource'', Str ''/admin/dashboard''),
        (''location'', Str ''192.168.1.100''),
        (''success'', Bool True),
        (''login_frequency'', Num 1),
        (''failed_attempts'', Num 0),
        (''file_size'', Num 0),
        (''session_duration'', Num 60)]\<rparr>"

text \<open>
  \<open>handleSubmit\<close> from the \<open>await\<close> on: \<open>called\<close> is how the call \<open>riskAPI.predict(formData)\<close>
  settled, \<open>st\<close> the state after \<open>setIsLoading(true)\<close>.
\<close>

definition handleSubmit_settle :: "js_error + jsval \<Rightarrow> simulator \<Rightarrow> simulator" where
  "handleSubmit_settle called st =
     (let st1 =
        (case and_then called (\<lambda>response. prop_data response) of
           Inr d \<Rightarrow> st\<lparr>toasts := toasts st @ [ToastSuccess ''Risk assessment completed!''],
                        result := d\<rparr>
         | Inl error \<Rightarrow> st\<lparr>console := console st @ [''Risk prediction error:''],
                            toasts := toasts st @ [ToastError ''Failed to assess risk'']\<rparr>)
      in st1\<lparr>isLoading := False\<rparr>)"

text \<open>
  The whole of \<open>handleSubmit\<close>; \<open>predictBody\<close> stands for what the member \<open>predict\<close>, which the
  API client does not define, would give.
\<close>

definition handleSubmit :: "js_error + jsval \<Rightarrow> simulator \<Rightarrow> simulator" where
  "handleSubmit predictBody st =
     handleSubmit_settle (riskAPI_call ''predict'' predictBody) (st\<lparr>isLoading := True\<rparr>)"

definition handleInputChange :: "string \<Rightarrow> field_value \<Rightarrow> simulator \<Rightarrow> simulator" where
  "handleInputChange field v st = st\<lparr>formData := (formData st)(field \<mapsto> v)\<rparr>"

definition getRiskColor :: "real \<Rightarrow> string" where
  "getRiskColor score =
     (if score \<ge> 40 then ''text-red-600 bg-red-50 border-red-200''
      else if score \<ge> 30 then ''text-orange-600 bg-orange-50 border-orange-200''
      else if score \<ge> 20 then ''text-yellow-600 bg-yellow-50 border-yellow-200''
      else ''text-green-600 bg-green-50 border-green-200'')"

definition presetScenarios :: "(string \<times> (string \<times> field_value) list) list" where
  "presetScenarios =
     [(''Normal Activity'',
         [(''action'', Str ''file_access''),
          (''resource'', Str ''/documents/report.pdf''),
          (''location'', Str ''192.168.1.100''),
          (''success'', Bool True),
          (''failed_attempts'', Num 0),
          (''session_duration'', Num 120)]),
      (''Suspicious Late Access'',
         [(''action'', Str ''system_access''),
          (''resource'', Str ''/admin/config.php''),
          (''location'', Str ''203.0.113.42''),
          (''success'', Bool True),
          (''failed_attempts'', Num 0),
          (''session_duration'', Num 15)]),
      (''Failed Login Attempts'',
         [(''action'', Str ''login''),
          (''resource'', Str ''/login''),
          (''location'', Str ''198.51.100.30''),
          (''success'', Bool False),
          (''failed_attempts'', Num 5),
          (''session_duration'', Num 5)]),
      (''Large Data Download'',
         [(''action'', Str ''download''),
          (''resource'', Str ''/database/backup.sql''),
          (''location'', Str ''10.0.0.50''),
          (''success'', Bool True),
          (''failed_attempts'', Num 0),
          (''file_size'', Num 2048),
          (''session_duration'', Num 300)])]"

text \<open>The click handler of a preset button: \<open>setFormData(prev => ({...prev, ...scenario.data}))\<close>.\<close>

definition applyPreset :: "string \<times> (string \<times> field_value) list \<Rightarrow> simulator \<Rightarrow> simulator" where
  "applyPreset scenario st = st\<lparr>formData := formData st ++ map_of (snd scenario)\<rparr>"

text \<open>
  One mounted instance of the component as a transition system. The second component of
  a state counts the prediction calls that were started and have not settled. The submit
  button carries \<open>disabled={isLoading}\<close>, and a form whose submit button is disabled is not
  submitted, so \<open>Submit\<close> is possible only while \<open>isLoading\<close> is false; the other inputs are
  never disabled. \<open>Submit\<close> is \<open>handleSubmit\<close> up to its \<open>await\<close>, \<open>Settle\<close> the rest of it; a
  call that throws at once is a \<open>Submit\<close> followed directly by its \<open>Settle\<close>. A step that is
  not possible gives \<open>None\<close>.
\<close>

datatype sim_event =
    Submit
  | Settle "js_error + jsval"
  | Preset nat
  | InputChange string field_value

fun sim_step :: "sim_event \<Rightarrow> simulator \<times> nat \<Rightarrow> (simulator \<times> nat) option" where
  "sim_step Submit (st, n) =
     (if isLoading st then None else Some (st\<lparr>isLoading := True\<rparr>, Suc n))"
| "sim_step (Settle called) (st, n) =
     (if n = 0 then None else Some (handleSubmit_settle called st, n - 1))"
| "sim_step (Preset i) (st, n) =
     (if i < length presetScenarios then Some (applyPreset (presetScenarios ! i) st, n)
      else None)"
| "sim_step (InputChange field v) (st, n) = Some (handleInputChange field v st, n)"

fun sim_run :: "sim_event list \<Rightarrow> simulator \<times> nat \<Rightarrow> (simulator \<times> nat) option" where
  "sim_run [] s = Some s"
| "sim_run (e # es) s = (case sim_step e s of None \<Rightarrow> None | Some s' \<Rightarrow> sim_run es s')"

section \<open>Severity bands as the specification words them\<close>

datatype severity = Green | Yellow | Orange | Red

text \<open>The thresholds of the specification: at least 40 red, 30 orange, 20 yellow, else green.\<close>

definition spec_severity :: "real \<Rightarrow> severity" where
  "spec_severity score =
     (if score \<ge> 40 then Red else if score \<ge> 30 then Orange
      else if score \<ge> 20 then Yellow else Green)"

fun severity_rank :: "severity \<Rightarrow> nat" where
  "severity_rank Green = 0"
| "severity_rank Yellow = 1"
| "severity_rank Orange = 2"
| "severity_rank Red = 3"

text \<open>
  The band a class string shows: the colour word of its leading token, which is
  \<open>text-COLOUR-600\<close> or \<open>bg-COLOUR-500\<close>.
\<close>

definition band_of_class :: "string \<Rightarrow> severity option" where
  "band_of_class cls =
     (let w = takeWhile (\<lambda>c. c \<noteq> CHR ''-'') (drop 1 (dropWhile (\<lambda>c. c \<noteq> CHR ''-'') cls))
      in if w = ''red'' then Some Red
         else if w = ''orange'' then Some Orange
         else if w = ''yellow'' then Some Yellow
         else if w = ''green'' then Some Green
         else None)"

section \<open>Sample data\<close>

text \<open>
  On a string of ASCII characters the library method \<open>toLowerCase\<close> changes the letters
  A to Z and nothing else. \<open>toLowerCase_ascii\<close> is that restriction; it stands for the
  library method in the concrete examples only, all of which are ASCII text.
\<close>

definition toLowerCase_ascii :: "string \<Rightarrow> string" where
  "toLowerCase_ascii s =
     map (\<lambda>c. case map_of (zip ''ABCDEFGHIJKLMNOPQRSTUVWXYZ'' ''abcdefghijklmnopqrstuvwxyz'') c of
                 Some d \<Rightarrow> d
               | None \<Rightarrow> c) s"

abbreviation (input) alice :: UserRiskData where
  "alice \<equiv> \<lparr>user_id = ''1'', name = ''Alice Johnson'', email = ''alice@example.com'',
     current_score = 12, risk_level = ''Low'', last_updated = ''2024-01-01''\<rparr>"

abbreviation (input) bob :: UserRiskData where
  "bob \<equiv> \<lparr>user_id = ''2'', name = ''Bob Wilson'', email = ''bob@example.com'',
     current_score = 41, risk_level = ''Critical'', last_updated = ''2024-01-02''\<rparr>"

abbreviation (input) login_event :: ActivityLog where
  "login_event \<equiv> \<lparr>activity_id = 1, activity_user_id = 7, action = ''login'', resource = None,
     location = None, success = True, risk_score = 10, timestamp = ''2024-01-01''\<rparr>"

abbreviation (input) download_event :: ActivityLog where
  "download_event \<equiv> \<lparr>activity_id = 2, activity_user_id = 7, action = ''download'',
     resource = Some ''/database/backup.sql'', location = None, success = False,
     risk_score = 40, timestamp = ''2024-01-02''\<rparr>"

section \<open>The API client and its callers\<close>

lemma riskAPI_call_getUserRiskScores:
  "riskAPI_call ''getUserRiskScores'' body = body"
  by (simp add: riskAPI_call_def riskAPI_def)

text \<open>
  C1. The API client is to expose one function per backend operation: risk-score
  listing, single-user lookup, activity history, dashboard statistics, trend series,
  recommendations and prediction. The object \<open>riskAPI\<close> has three members, of which two
  are among these operations. The members that the pages and the simulator call for
  activity history, dashboard statistics, trend series and prediction do not exist: each
  such call throws a \<open>TypeError\<close>, whatever the backend would answer.
\<close>

theorem riskAPI_lacks_operations:
  "riskAPI = [''getUserRiskScores'', ''getUserById'', ''updateRiskScore''] \<and>
   riskAPI_call ''getUserActivity'' body = Inl TypeError \<and>
   riskAPI_call ''getDashboardStats'' body = Inl TypeError \<and>
   riskAPI_call ''getRiskTrends'' body = Inl TypeError \<and>
   riskAPI_call ''predict'' body = Inl TypeError"
  by (simp add: riskAPI_call_def riskAPI_def)

text \<open>
  C2. After a successful fetch the Users page is to show one row per element of the array
  that \<open>getUserRiskScores\<close> returned. \<open>getUserRiskScores\<close> already returns the array (the
  \<open>data\<close> of the response), and \<open>fetchUsers\<close> reads \<open>data\<close> of that array once more: for
  every array the backend sends, the page stores \<open>undefined\<close> in \<open>users\<close>, and the
  recomputation of the view throws instead of showing the rows.
\<close>

theorem Users_fetch_success_loses_array:
  "getUserRiskScores (\<lambda>request. Inr (AxiosResponse (UserArray us))) = Inr (UserArray us) \<and>
   fetchUsers (\<lambda>request. Inr (AxiosResponse (UserArray us))) st
     = st\<lparr>isLoading := False, users := Undefined\<rparr> \<and>
   Users_mount toLowerCase (\<lambda>request. Inr (AxiosResponse (UserArray us))) = Inl TypeError"
  by (simp add: getUserRiskScores_def fetchUsers_def Users_mount_def filterUsers_def
      render_Users_def and_then_def riskAPI_call_getUserRiskScores Users_init_def)

section \<open>Fetch failures\<close>




section \<open>Severity bands\<close>

lemma band_Users: "band_of_class (getRiskScoreColor_Users s) = Some (spec_severity s)"
  by (simp add: band_of_class_def getRiskScoreColor_Users_def spec_severity_def)

lemma band_scoreBar: "band_of_class (scoreBarColor_Users s) = Some (spec_severity s)"
  by (simp add: band_of_class_def scoreBarColor_Users_def spec_severity_def)

lemma band_Simulator: "band_of_class (getRiskColor s) = Some (spec_severity s)"
  by (simp add: band_of_class_def getRiskColor_def spec_severity_def)

lemma band_UserDetail:
  "band_of_class (getRiskScoreColor_UserDetail s) = Some (spec_severity s)"
  by (simp add: band_of_class_def getRiskScoreColor_UserDetail_def spec_severity_def)

lemma spec_severity_mono:
  "s \<le> t \<Longrightarrow> severity_rank (spec_severity s) \<le> severity_rank (spec_severity t)"
  by (simp add: spec_severity_def)

text \<open>
  C4. The Users table (score text and score bar), the simulator's result panel and the
  UserDetail page all show the band that the thresholds 40, 30 and 20 give; the band
  never goes down when the score goes up; 39.9 is orange and 40 is red.
\<close>

theorem severity_bands_consistent:
  "band_of_class (getRiskScoreColor_Users s) = Some (spec_severity s) \<and>
   band_of_class (scoreBarColor_Users s) = Some (spec_severity s) \<and>
   band_of_class (getRiskColor s) = Some (spec_severity s) \<and>
   band_of_class (getRiskScoreColor_UserDetail s) = Some (spec_severity s) \<and>
   (s \<le> t \<longrightarrow> severity_rank (spec_severity s) \<le> severity_rank (spec_severity t)) \<and>
   spec_severity 39.9 = Orange \<and> spec_severity 40 = Red"
  using band_Users band_scoreBar band_Simulator band_UserDetail spec_severity_mono
  by (simp add: spec_severity_def)

theorem severity_bands_consistent_witness:
  "(39.9::real) \<le> 40 \<and>
   map (\<lambda>f. band_of_class (f 39.9))
     [getRiskScoreColor_Users, scoreBarColor_Users, getRiskColor, getRiskScoreColor_UserDetail]
     = [Some Orange, Some Orange, Some Orange, Some Orange] \<and>
   map (\<lambda>f. band_of_class (f 40))
     [getRiskScoreColor_Users, scoreBarColor_Users, getRiskColor, getRiskScoreColor_UserDetail]
     = [Some Red, Some Red, Some Red, Some Red] \<and>
   severity_rank (spec_severity 39.9) \<le> severity_rank (spec_severity 40)"
  using severity_bands_consistent [of "39.9" "40"] severity_bands_consistent [of "40" "40"]
  by simp

section \<open>Filtering the Users page\<close>

lemma includes_str_empty: "includes_str s []"
  by (induction s) simp_all

lemma includes_str_prefix: "includes_str (t @ post) t"
proof (cases "t @ post")
  case Nil
  then show ?thesis by simp
next
  case (Cons a list)
  have "take (length t) (t @ post) = t" by simp
  with Cons show ?thesis by (metis includes_str.simps(2))
qed

lemma includes_str_append: "includes_str (pre @ t @ post) t"
  by (induction pre) (simp_all add: includes_str_prefix)

lemma includes_str_iff: "includes_str s t \<longleftrightarrow> (\<exists>pre post. s = pre @ t @ post)"
proof
  show "includes_str s t \<Longrightarrow> \<exists>pre post. s = pre @ t @ post"
  proof (induction s)
    case Nil
    then show ?case by simp
  next
    case (Cons c s)
    show ?case
    proof (cases "take (length t) (c # s) = t")
      case True
      then have "c # s = [] @ t @ drop (length t) (c # s)"
        by (metis append_Nil append_take_drop_id)
      then show ?thesis by blast
    next
      case False
      with Cons obtain pre post where "s = pre @ t @ post" by auto
      then have "c # s = (c # pre) @ t @ post" by simp
      then show ?thesis by blast
    qed
  qed
next
  show "\<exists>pre post. s = pre @ t @ post \<Longrightarrow> includes_str s t"
    using includes_str_append by blast
qed

lemma matchesSearch_iff:
  "matchesSearch toLowerCase term u \<longleftrightarrow>
     (\<exists>pre post. toLowerCase (name u) = pre @ toLowerCase term @ post) \<or>
     (\<exists>pre post. toLowerCase (email u) = pre @ toLowerCase term @ post)"
  by (simp add: matchesSearch_def includes_str_iff)

lemma matchesSearch_empty: "toLowerCase term = [] \<Longrightarrow> matchesSearch toLowerCase term u"
  by (simp add: matchesSearch_def includes_str_empty)

lemma filter_twice_sub: "mset (filter Q (filter P xs)) \<subseteq># mset xs"
  by (metis mset_filter multiset_filter_subset subset_mset.order_trans)

lemma filter_twice_length: "length (filter Q (filter P xs)) \<le> length xs"
  by (meson length_filter_le order_trans)

lemma filterUsers_all:
  "users st = UserArray us \<Longrightarrow> selectedFilter st = ''all'' \<Longrightarrow>
     filterUsers toLowerCase st
       = Inr (st\<lparr>filteredUsers :=
                   sort_key (\<lambda>user. - current_score user)
                     (filter (matchesSearch toLowerCase (searchTerm st)) us)\<rparr>)"
  by (simp add: filterUsers_def)

text \<open>
  C5, as amended. With the risk-level filter at "all", the recomputation changes nothing
  but \<open>filteredUsers\<close>, and \<open>filteredUsers\<close> holds exactly the users of the fetched list
  whose lower-cased name or lower-cased email contains the lower-cased search term as a
  contiguous substring, each as often as the list has it, in descending order of score.
  The term is taken as typed, not trimmed. Hence the empty term keeps the full list, and
  a term of whitespace keeps only the users whose name or email contains that whitespace.
\<close>

theorem search_with_all_levels:
  "users st = UserArray us \<Longrightarrow> selectedFilter st = ''all'' \<Longrightarrow>
     (case filterUsers toLowerCase st of
        Inr st' \<Rightarrow>
          st' = st\<lparr>filteredUsers := filteredUsers st'\<rparr> \<and>
          mset (filteredUsers st')
            = filter_mset
                (\<lambda>u. (\<exists>pre post. toLowerCase (name u) = pre @ toLowerCase (searchTerm st) @ post) \<or>
                      (\<exists>pre post. toLowerCase (email u) = pre @ toLowerCase (searchTerm st) @ post))
                (mset us) \<and>
          sorted (map (\<lambda>user. - current_score user) (filteredUsers st')) \<and>
          (searchTerm st = [] \<and> toLowerCase [] = [] \<longrightarrow>
             mset (filteredUsers st') = mset us)
      | Inl e \<Rightarrow> False)"
proof -
  assume u: "users st = UserArray us" and f: "selectedFilter st = ''all''"
  let ?kept = "filter (matchesSearch toLowerCase (searchTerm st)) us"
  let ?sorted = "sort_key (\<lambda>user. - current_score user) ?kept"
  have run: "filterUsers toLowerCase st = Inr (st\<lparr>filteredUsers := ?sorted\<rparr>)"
    using u f by (rule filterUsers_all)
  have kept: "mset ?sorted
      = filter_mset
          (\<lambda>u. (\<exists>pre post. toLowerCase (name u) = pre @ toLowerCase (searchTerm st) @ post) \<or>
                (\<exists>pre post. toLowerCase (email u) = pre @ toLowerCase (searchTerm st) @ post))
          (mset us)"
    by (simp add: matchesSearch_iff)
  have ordered: "sorted (map (\<lambda>user. - current_score user) ?sorted)"
    by (rule sorted_sort_key)
  have full: "searchTerm st = [] \<and> toLowerCase [] = [] \<longrightarrow> mset ?sorted = mset us"
    by (simp add: matchesSearch_empty)
  show ?thesis
    using kept ordered full by (simp add: run)
qed

theorem search_with_all_levels_witness:
  "users (Users_init\<lparr>isLoading := False, users := UserArray [alice, bob]\<rparr>)
     = UserArray [alice, bob] \<and>
   selectedFilter (Users_init\<lparr>isLoading := False, users := UserArray [alice, bob]\<rparr>) = ''all'' \<and>
   searchTerm (Users_init\<lparr>isLoading := False, users := UserArray [alice, bob]\<rparr>) = [] \<and>
   toLowerCase_ascii [] = [] \<and>
   map_sum id filteredUsers
     (filterUsers toLowerCase_ascii
        (Users_init\<lparr>isLoading := False, users := UserArray [alice, bob]\<rparr>))
     = Inr [bob, alice] \<and>
   map_sum id filteredUsers
     (filterUsers toLowerCase_ascii
        (Users_init\<lparr>isLoading := False, users := UserArray [alice, bob],
           searchTerm := '' ''\<rparr>))
     = Inr [bob, alice] \<and>
   map_sum id filteredUsers
     (filterUsers toLowerCase_ascii
        (Users_init\<lparr>isLoading := False, users := UserArray [alice, bob],
           searchTerm := ''E J''\<rparr>))
     = Inr [alice]"
  using search_with_all_levels
    [of "Users_init\<lparr>isLoading := False, users := UserArray [alice, bob]\<rparr>" "[alice, bob]"
        toLowerCase_ascii]
  by (simp add: filterUsers_def Users_init_def matchesSearch_def toLowerCase_ascii_def)

text \<open>
  C5 as the specification words it fails: with the search term of one space and the
  filter at "all", a user whose name and email contain no space is dropped.
\<close>

theorem whitespace_search_drops_users:
  "map_sum id filteredUsers
     (filterUsers toLowerCase_ascii
        (Users_init\<lparr>isLoading := False,
           users := UserArray [alice\<lparr>name := ''alice''\<rparr>], searchTerm := '' ''\<rparr>))
     = Inr []"
  by (simp add: filterUsers_def Users_init_def matchesSearch_def toLowerCase_ascii_def)

text \<open>
  C10. Whenever \<open>users\<close> holds an array, the recomputation of the view succeeds and
  \<open>filteredUsers\<close> is a rearrangement of part of that array, hence no longer than it; the
  recomputation leaves \<open>users\<close> as it was.
\<close>

theorem filteredUsers_within_users:
  "users st = UserArray us \<Longrightarrow>
     (case filterUsers toLowerCase st of
        Inr st' \<Rightarrow> mset (filteredUsers st') \<subseteq># mset us \<and>
                   length (filteredUsers st') \<le> length us \<and>
                   users st' = UserArray us
      | Inl e \<Rightarrow> False)"
  by (simp add: filterUsers_def Let_def filter_twice_sub filter_twice_length)

theorem filteredUsers_within_users_witness:
  "users (Users_init\<lparr>isLoading := False, users := UserArray [alice, bob],
            searchTerm := ''BOB''\<rparr>) = UserArray [alice, bob] \<and>
   map_sum id filteredUsers
     (filterUsers toLowerCase_ascii
        (Users_init\<lparr>isLoading := False, users := UserArray [alice, bob],
           searchTerm := ''BOB''\<rparr>))
     = Inr [bob]"
  using filteredUsers_within_users
    [of "Users_init\<lparr>isLoading := False, users := UserArray [alice, bob],
           searchTerm := ''BOB''\<rparr>" "[alice, bob]" toLowerCase_ascii]
  by (simp add: filterUsers_def Users_init_def matchesSearch_def toLowerCase_ascii_def)

section \<open>The average risk score of the UserDetail page\<close>

lemma foldl_risk_score:
  "foldl (\<lambda>sum a. sum + risk_score a) z acts = z + sum_list (map risk_score acts)"
  by (induction acts arbitrary: z) simp_all

text \<open>
  C9. The card never divides by zero: for the empty list of activities it shows the
  literal "0.0", and for a non-empty list it formats the finite quotient of the sum of
  the scores by the number of activities.
\<close>

theorem avg_risk_score_guarded:
  "avgRiskScoreCard [] = Literal ''0.0'' \<and>
   (acts \<noteq> [] \<longrightarrow>
      avgRiskScoreCard acts
        = ToFixed (Finite (sum_list (map risk_score acts) / real (length acts))) 1)"
  by (simp add: avgRiskScoreCard_def js_divide_def foldl_risk_score)

theorem avg_risk_score_guarded_witness:
  "[login_event, download_event] \<noteq> [] \<and>
   avgRiskScoreCard [login_event, download_event] = ToFixed (Finite 25) 1"
  using avg_risk_score_guarded [of "[login_event, download_event]"]
  by simp

section \<open>Presets of the Risk Simulator\<close>

lemma presets_distinct:
  "scenario \<in> set presetScenarios \<Longrightarrow> distinct (map fst (snd scenario))"
  by (auto simp: presetScenarios_def)

text \<open>
  C6. Clicking a preset changes nothing but the draft; in the draft, a field that the
  preset does not list keeps its prior value and a field that it lists takes the preset's
  value. The preset "Failed Login Attempts" (the third one) does not list \<open>file_size\<close>, so
  \<open>file_size\<close> keeps its prior value.
\<close>

theorem preset_overwrites_only_its_fields:
  "scenario \<in> set presetScenarios \<Longrightarrow>
     (field \<notin> fst ` set (snd scenario) \<longrightarrow>
        formData (applyPreset scenario st) field = formData st field) \<and>
     ((field, v) \<in> set (snd scenario) \<longrightarrow>
        formData (applyPreset scenario st) field = Some v) \<and>
     applyPreset scenario st = st\<lparr>formData := formData (applyPreset scenario st)\<rparr> \<and>
     formData (applyPreset (presetScenarios ! 2) st) ''file_size'' = formData st ''file_size''"
proof (intro conjI impI)
  assume "field \<notin> fst ` set (snd scenario)"
  then have "map_of (snd scenario) field = None"
    by (simp add: map_of_eq_None_iff)
  then show "formData (applyPreset scenario st) field = formData st field"
    by (simp add: applyPreset_def map_add_def)
next
  assume s: "scenario \<in> set presetScenarios" and "(field, v) \<in> set (snd scenario)"
  with presets_distinct [OF s] show "formData (applyPreset scenario st) field = Some v"
    by (simp add: applyPreset_def map_add_def)
next
  show "applyPreset scenario st = st\<lparr>formData := formData (applyPreset scenario st)\<rparr>"
    by (simp add: applyPreset_def)
next
  show "formData (applyPreset (presetScenarios ! 2) st) ''file_size'' = formData st ''file_size''"
    by (simp add: applyPreset_def presetScenarios_def map_add_def)
qed

theorem preset_overwrites_only_its_fields_witness:
  "presetScenarios ! 2 \<in> set presetScenarios \<and>
   fst (presetScenarios ! 2) = ''Failed Login Attempts'' \<and>
   ''file_size'' \<notin> fst ` set (snd (presetScenarios ! 2)) \<and>
   (''failed_attempts'', Num 5) \<in> set (snd (presetScenarios ! 2)) \<and>
   formData (applyPreset (presetScenarios ! 2)
       (applyPreset (presetScenarios ! 3) Simulator_init)) ''file_size'' = Some (Num 2048) \<and>
   formData (applyPreset (presetScenarios ! 2)
       (applyPreset (presetScenarios ! 3) Simulator_init)) ''failed_attempts'' = Some (Num 5)"
  using preset_overwrites_only_its_fields
    [where scenario = "presetScenarios ! 2" and field = "''file_size''"
       and st = "applyPreset (presetScenarios ! 3) Simulator_init"]
    preset_overwrites_only_its_fields
    [where scenario = "presetScenarios ! 2" and field = "''failed_attempts''" and v = "Num 5"
       and st = "applyPreset (presetScenarios ! 3) Simulator_init"]
  by (simp add: presetScenarios_def applyPreset_def Simulator_init_def map_add_def)

section \<open>Submitting the Risk Simulator\<close>

text \<open>
  C7. When the prediction call fails, the simulator shows the toast "Failed to assess
  risk", logs the error, leaves the displayed result and the draft as they were and
  clears \<open>isLoading\<close>, which enables the submit button again. With the API client of this
  repository every submission ends this way.
\<close>

theorem submit_failure_keeps_result:
  "handleSubmit_settle (Inl e) st
     = st\<lparr>console := console st @ [''Risk prediction error:''],
          toasts := toasts st @ [ToastError ''Failed to assess risk''],
          isLoading := False\<rparr> \<and>
   handleSubmit predictBody st
     = st\<lparr>console := console st @ [''Risk prediction error:''],
          toasts := toasts st @ [ToastError ''Failed to assess risk''],
          isLoading := False\<rparr> \<and>
   result (handleSubmit_settle (Inl e) st) = result st \<and>
   isLoading (handleSubmit_settle (Inl e) st) = False"
  by (simp add: handleSubmit_settle_def handleSubmit_def and_then_def riskAPI_call_def
      riskAPI_def)

lemma sim_step_inv:
  "sim_step ev (st, n) = Some (st', n') \<Longrightarrow> n \<le> 1 \<Longrightarrow> isLoading st = (n = 1) \<Longrightarrow>
     n' \<le> 1 \<and> isLoading st' = (n' = 1)"
  by (cases ev)
     (auto simp: handleSubmit_settle_def handleInputChange_def applyPreset_def Let_def
           split: if_splits sum.splits)

lemma sim_run_inv:
  "sim_run es (st, n) = Some (st', n') \<Longrightarrow> n \<le> 1 \<Longrightarrow> isLoading st = (n = 1) \<Longrightarrow>
     n' \<le> 1 \<and> isLoading st' = (n' = 1)"
proof (induction es arbitrary: st n)
  case Nil
  then show ?case by simp
next
  case (Cons ev es)
  from Cons.prems(1) obtain st1 n1 where
    step: "sim_step ev (st, n) = Some (st1, n1)" and run: "sim_run es (st1, n1) = Some (st', n')"
    by (auto split: option.splits)
  from sim_step_inv [OF step Cons.prems(2,3)] Cons.IH [OF run] show ?case by blast
qed

text \<open>
  C8. Along every sequence of submissions, settlements, preset clicks and edits from the
  initial state, at most one prediction request is unsettled, the submit button is
  disabled exactly while one is, and a submission is impossible during that time.
\<close>

theorem one_prediction_in_flight:
  "sim_run es (Simulator_init, 0) = Some (st, n) \<Longrightarrow>
     n \<le> 1 \<and> isLoading st = (n = 1) \<and>
     (if n = 1 then sim_step Submit (st, n) = None else sim_step Submit (st, n) \<noteq> None)"
  using sim_run_inv [of es Simulator_init 0 st n]
  by (auto simp: Simulator_init_def)

theorem one_prediction_in_flight_witness:
  "sim_run [Submit, Settle (Inl NetworkError), Preset 2, Submit] (Simulator_init, 0)
     = Some (Simulator_init
        \<lparr>isLoading := True, console := [''Risk prediction error:''],
         toasts := [ToastError ''Failed to assess risk''],
         formData := formData Simulator_init ++ map_of (snd (presetScenarios ! 2))\<rparr>, 1) \<and>
   sim_run [Submit, Submit] (Simulator_init, 0) = None"
  using one_prediction_in_flight
    [of "[Submit, Settle (Inl NetworkError), Preset 2, Submit]"
        "Simulator_init
        \<lparr>isLoading := True, console := [''Risk prediction error:''],
         toasts := [ToastError ''Failed to assess risk''],
         formData := formData Simulator_init ++ map_of (snd (presetScenarios ! 2))\<rparr>" 1]
  by (simp add: Simulator_init_def handleSubmit_settle_def and_then_def applyPreset_def
      presetScenarios_def)

end
